theory Spec2Isabelle
  imports Main "HOL-Library.Multiset"
begin

section \<open>Errors\<close>

text \<open>
  Go errors as values. \<open>Errorf\<close> is an error made by \<open>fmt.Errorf\<close> or \<open>errors.New\<close> with
  its message, \<open>Wrap\<close> is \<open>fmt.Errorf("...: %w", err)\<close>, \<open>HostError\<close> is an error handed
  back by the host framework (\<open>d.Set\<close>, \<open>d.SetNew\<close>), \<open>ApiError\<close> is a
  \<open>googleapi.Error\<close> with its HTTP code, and \<open>Panic\<close> is a run-time panic (a failed type
  assertion, a nil pointer dereference).
\<close>

datatype error =
    Errorf string
  | Wrap string error
  | HostError string
  | ApiError int
  | Panic string

section \<open>Label helpers (package tpgresource)\<close>

text \<open>
  A Go \<open>map[string]string\<close> is a partial function. A value of type \<open>interface{}\<close> read
  from the host that holds such a map is a \<open>labels option\<close>: \<open>None\<close> is the nil interface.
\<close>

type_synonym labels = "string \<rightharpoonup> string"

record Config =
  DefaultLabels :: labels

subsection \<open>The host's \<open>schema.ResourceData\<close>, as far as \<open>SetLabels\<close> uses it\<close>

record LabelData =
  data_fields :: "string \<Rightarrow> labels option"
  data_set_error :: "string \<Rightarrow> error option"

text \<open>\<open>d.GetOk(key)\<close>: the value, and whether it is set to a non-zero value (a non-empty map).\<close>

definition data_GetOk :: "LabelData \<Rightarrow> string \<Rightarrow> labels option \<times> bool" where
  "data_GetOk d key =
     (case data_fields d key of
        None \<Rightarrow> (None, False)
      | Some v \<Rightarrow> (Some v, dom v \<noteq> {}))"

text \<open>\<open>d.Set(key, value)\<close>: the host either refuses the write or stores the value.\<close>

definition data_Set :: "LabelData \<Rightarrow> string \<Rightarrow> labels \<Rightarrow> error option \<times> LabelData" where
  "data_Set d key v =
     (case data_set_error d key of
        Some e \<Rightarrow> (Some e, d)
      | None \<Rightarrow> (None, d\<lparr>data_fields := (data_fields d)(key := Some v)\<rparr>))"

text \<open>\<open>labels[k]\<close> on a Go map: the zero value \<open>""\<close> for a missing key.\<close>

definition index_or_zero :: "labels \<Rightarrow> string \<Rightarrow> string" where
  "index_or_zero m k = (case m k of None \<Rightarrow> [] | Some v \<Rightarrow> v)"

text \<open>
  \<open>SetLabels\<close>: the parameter \<open>labels\<close> may be the nil map (\<open>None\<close>). The loop
  \<open>for k := range v { transformed[k] = labels[k] }\<close> gives \<open>transformed\<close> exactly the keys
  of \<open>v\<close>.
\<close>

definition SetLabels :: "labels option \<Rightarrow> LabelData \<Rightarrow> string \<Rightarrow> error option \<times> LabelData" where
  "SetLabels labels d lineage =
     (let transformed =
        (case data_GetOk d lineage of
           (Some v, True) \<Rightarrow>
             (case labels of
                Some l \<Rightarrow> (\<lambda>k. if v k \<noteq> None then Some (index_or_zero l k) else None)
              | None \<Rightarrow> Map.empty)
         | _ \<Rightarrow> Map.empty)
      in data_Set d lineage transformed)"

subsection \<open>The host's \<open>schema.ResourceDiff\<close>, as far as \<open>SetLabelsDiff\<close> uses it\<close>

record ResourceDiff =
  diff_old :: "string \<Rightarrow> labels option"
  diff_new :: "string \<Rightarrow> labels option"
  setnew_error :: "string \<Rightarrow> error option"

definition diff_Get :: "ResourceDiff \<Rightarrow> string \<Rightarrow> labels option" where
  "diff_Get d key = diff_new d key"

definition diff_GetChange :: "ResourceDiff \<Rightarrow> string \<Rightarrow> labels option \<times> labels option" where
  "diff_GetChange d key = (diff_old d key, diff_new d key)"

definition diff_SetNew :: "ResourceDiff \<Rightarrow> string \<Rightarrow> labels \<Rightarrow> error option \<times> ResourceDiff" where
  "diff_SetNew d key v =
     (case setnew_error d key of
        Some e \<Rightarrow> (Some e, d)
      | None \<Rightarrow> (None, d\<lparr>diff_new := (diff_new d)(key := Some v)\<rparr>))"

text \<open>The panic of a type assertion \<open>x.(map[string]interface{})\<close> on a nil interface.\<close>

definition nil_assertion :: error where
  "nil_assertion = Panic ''interface conversion: interface {} is nil, not map[string]interface {}''"

text \<open>
  \<open>SetLabelsDiff\<close>. The two loops over \<open>n\<close> and \<open>o\<close> are written pointwise: the first
  overlays \<open>n\<close> on \<open>effectiveLabels\<close>, the second deletes every key of \<open>o\<close> that \<open>n\<close> lacks.
  The result is the returned error and the diff as the function leaves it.
\<close>

definition SetLabelsDiff :: "Config \<Rightarrow> ResourceDiff \<Rightarrow> error option \<times> ResourceDiff" where
  "SetLabelsDiff config d =
     (let terraformLabels = Map.empty ++ DefaultLabels config in
      case diff_Get d ''labels'' of
        None \<Rightarrow> (None, d)
      | Some labels \<Rightarrow>
          (let terraformLabels = terraformLabels ++ labels in
           case diff_SetNew d ''terraform_labels'' terraformLabels of
             (Some err, d1) \<Rightarrow> (Some (Wrap ''error setting new terraform_labels diff'' err), d1)
           | (None, d1) \<Rightarrow>
               (case diff_GetChange d1 ''terraform_labels'' of
                  (ov, nv) \<Rightarrow>
                    (case diff_Get d1 ''effective_labels'' of
                       None \<Rightarrow> (Some nil_assertion, d1)
                     | Some effectiveLabels \<Rightarrow>
                         (case nv of
                            None \<Rightarrow> (Some nil_assertion, d1)
                          | Some n \<Rightarrow>
                              (let effectiveLabels = effectiveLabels ++ n in
                               case ov of
                                 None \<Rightarrow> (Some nil_assertion, d1)
                               | Some old \<Rightarrow>
                                   (let effectiveLabels =
                                      (\<lambda>k. if old k \<noteq> None \<and> n k = None then None
                                           else effectiveLabels k)
                                    in case diff_SetNew d1 ''effective_labels'' effectiveLabels of
                                         (Some err, d2) \<Rightarrow>
                                           (Some (Wrap ''error setting new effective_labels diff'' err), d2)
                                       | (None, d2) \<Rightarrow> (None, d2))))))))"

text \<open>
  The state the next plan starts from once a plan has been applied: the planned values
  become the prior values.
\<close>

definition applied :: "ResourceDiff \<Rightarrow> ResourceDiff" where
  "applied d = d\<lparr>diff_old := diff_new d\<rparr>"

text \<open>The keys of the declared configuration of a label field, as \<open>SetLabels\<close> reads them.\<close>

definition declared_keys :: "LabelData \<Rightarrow> string \<Rightarrow> string set" where
  "declared_keys d lineage = (case data_fields d lineage of None \<Rightarrow> {} | Some v \<Rightarrow> dom v)"

subsection \<open>Sample inputs\<close>

text \<open>
  A resource data whose \<open>labels\<close> field holds \<open>v\<close>, and the diff of a plan whose configured
  labels are \<open>U\<close> over a prior state with \<open>terraform_labels = old\<close> and
  \<open>effective_labels = E\<close>; the host accepts every write.
\<close>

definition read_data :: "labels option \<Rightarrow> LabelData" where
  "read_data v = \<lparr>data_fields = (\<lambda>_. None)(''labels'' := v), data_set_error = (\<lambda>_. None)\<rparr>"

definition plan_diff :: "labels option \<Rightarrow> labels \<Rightarrow> labels \<Rightarrow> ResourceDiff" where
  "plan_diff U old E =
     \<lparr>diff_old = (\<lambda>_. None)(''terraform_labels'' := Some old, ''effective_labels'' := Some E),
      diff_new = (\<lambda>_. None)(''labels'' := U, ''terraform_labels'' := Some old,
                              ''effective_labels'' := Some E),
      setnew_error = (\<lambda>_. None)\<rparr>"

text \<open>The same diff when the host may deliver nil for a prior map.\<close>

definition raw_diff :: "labels option \<Rightarrow> labels option \<Rightarrow> labels option \<Rightarrow> ResourceDiff" where
  "raw_diff U old E =
     \<lparr>diff_old = (\<lambda>_. None)(''terraform_labels'' := old, ''effective_labels'' := E),
      diff_new = (\<lambda>_. None)(''labels'' := U, ''terraform_labels'' := old,
                              ''effective_labels'' := E),
      setnew_error = (\<lambda>_. None)\<rparr>"

definition env_prod :: Config where
  "env_prod = \<lparr>DefaultLabels = [''env'' \<mapsto> ''prod'']\<rparr>"

definition no_defaults :: Config where
  "no_defaults = \<lparr>DefaultLabels = Map.empty\<rparr>"

section \<open>Storage bucket resource (package google)\<close>

subsection \<open>The API types of \<open>google.golang.org/api/storage/v1\<close>\<close>

text \<open>A pointer field is an \<open>option\<close> (\<open>None\<close> is nil); \<open>int64\<close> and \<open>int\<close> values are \<open>int\<close>.\<close>

record Object =
  Name :: string
  Generation :: int

record BucketWebsite =
  MainPageSuffix :: string
  NotFoundPage :: string

record BucketBilling =
  RequesterPays :: bool
  Billing_ForceSendFields :: "string list"

record BucketVersioning =
  Enabled :: bool
  Versioning_ForceSendFields :: "string list"

record BucketLogging =
  LogBucket :: string
  LogObjectPrefix :: string

record BucketEncryption =
  DefaultKmsKeyName :: string

record BucketCors =
  Origin :: "string list"
  Method :: "string list"
  ResponseHeader :: "string list"
  MaxAgeSeconds :: int

record BucketLifecycleRuleAction =
  Action_Type :: string
  Action_StorageClass :: string

record BucketLifecycleRuleCondition =
  Age :: int
  CreatedBefore :: string
  IsLive :: "bool option"
  MatchesStorageClass :: "string list"
  NumNewerVersions :: int

record BucketLifecycleRule =
  Action :: "BucketLifecycleRuleAction option"
  Condition :: "BucketLifecycleRuleCondition option"

record BucketLifecycle =
  Rule :: "BucketLifecycleRule list"
  Lifecycle_ForceSendFields :: "string list"

text \<open>
  \<open>Labels\<close> is an association list: its order stands for the order in which Go ranges over
  the map. \<open>Cors\<close> is \<open>None\<close> for the nil slice.
\<close>

record Bucket =
  Bucket_Name :: string
  Labels :: "(string \<times> string) list"
  Location :: string
  StorageClass :: string
  Lifecycle :: "BucketLifecycle option"
  Versioning :: "BucketVersioning option"
  Website :: "BucketWebsite option"
  Cors :: "BucketCors list option"
  Logging :: "BucketLogging option"
  Encryption :: "BucketEncryption option"
  Billing :: "BucketBilling option"
  NullFields :: "string list"
  Bucket_Id :: string
  SelfLink :: string
  ProjectNumber :: nat

definition empty_Bucket :: Bucket where
  "empty_Bucket =
     \<lparr>Bucket_Name = [], Labels = [], Location = [], StorageClass = [], Lifecycle = None,
      Versioning = None, Website = None, Cors = None, Logging = None, Encryption = None,
      Billing = None, NullFields = [], Bucket_Id = [], SelfLink = [], ProjectNumber = 0\<rparr>"

subsection \<open>The remote service and the process around the resource functions\<close>

datatype call =
    ObjectsList string
  | ObjectsDelete string string int
  | BucketsDelete string
  | BucketsInsert string Bucket
  | BucketsPatch string Bucket
  | BucketsGet string
  | ProjectsGet string

text \<open>
  The world a resource function runs in: the object versions the bucket holds, how the
  service answers, the trace of the calls issued so far and the \<open>[ERR]\<close> lines logged.
  \<^item> \<open>page_size\<close>: how many object versions one \<open>Objects.List\<close> call returns at most;
  \<^item> \<open>list_error\<close>: the error \<open>Objects.List\<close> fails with, if it fails;
  \<^item> \<open>locked\<close>: the object versions whose deletion the service always refuses;
  \<^item> \<open>flaky\<close>: for each object version, how many of its next deletions fail;
  \<^item> \<open>rate_limited\<close>: how many of the next \<open>Buckets.Delete\<close> calls are answered 429;
  \<^item> \<open>insert_answer n\<close>: the answer to the \<open>n\<close>-th \<open>Buckets.Insert\<close> call (from 0);
  \<^item> \<open>patch_answer\<close>, \<open>get_answer\<close>, \<open>project_answer\<close>: the answers to \<open>Buckets.Patch\<close>,
    \<open>Buckets.Get\<close> and \<open>Projects.Get\<close>.
\<close>

record World =
  objects :: "Object list"
  page_size :: nat
  list_error :: "error option"
  locked :: "Object \<Rightarrow> bool"
  flaky :: "Object \<Rightarrow> nat"
  rate_limited :: nat
  insert_answer :: "nat \<Rightarrow> error + Bucket"
  patch_answer :: "error + Bucket"
  get_answer :: "error + Bucket"
  project_answer :: "error + string"
  calls :: "call list"
  log_lines :: "string list"

definition issue :: "call \<Rightarrow> World \<Rightarrow> World" where
  "issue c w = w\<lparr>calls := calls w @ [c]\<rparr>"

text \<open>\<open>Objects.List(bucket).Versions(true).Do()\<close>: one page of the bucket's object versions.\<close>

definition Objects_List :: "string \<Rightarrow> World \<Rightarrow> (error + Object list) \<times> World" where
  "Objects_List bucket w =
     (case list_error w of
        Some e \<Rightarrow> (Inl e, issue (ObjectsList bucket) w)
      | None \<Rightarrow> (Inr (take (page_size w) (objects w)), issue (ObjectsList bucket) w))"

text \<open>\<open>Objects.Delete(bucket, name).Generation(g).Do()\<close>.\<close>

definition Objects_Delete :: "string \<Rightarrow> Object \<Rightarrow> World \<Rightarrow> error option \<times> World" where
  "Objects_Delete bucket ob w =
     (let w1 = issue (ObjectsDelete bucket (Name ob) (Generation ob)) w in
      if locked w ob then (Some (ApiError 403), w1)
      else if 0 < flaky w ob then
        (Some (ApiError 503), w1\<lparr>flaky := (flaky w)(ob := flaky w ob - 1)\<rparr>)
      else if ob \<in> set (objects w) then (None, w1\<lparr>objects := removeAll ob (objects w)\<rparr>)
      else (Some (ApiError 404), w1))"

text \<open>
  \<open>Buckets.Delete(bucket).Do()\<close>: the service refuses to delete a bucket that still holds
  object versions (409).
\<close>

definition Buckets_Delete :: "string \<Rightarrow> World \<Rightarrow> error option \<times> World" where
  "Buckets_Delete bucket w =
     (let w1 = issue (BucketsDelete bucket) w in
      if 0 < rate_limited w then (Some (ApiError 429), w1\<lparr>rate_limited := rate_limited w - 1\<rparr>)
      else if objects w \<noteq> [] then (Some (ApiError 409), w1)
      else (None, w1))"

text \<open>
  The process: the number of CPUs, the order in which a worker pool of a given size lets
  the queued calls reach the service, and how many further attempts fit into the
  one-minute window of \<open>resource.Retry\<close>.
\<close>

record Runtime =
  NumCPU :: int
  schedule :: "nat \<Rightarrow> Object list \<Rightarrow> Object list"
  retry_budget :: nat

subsection \<open>The worker pool of \<open>github.com/gammazero/workerpool\<close>\<close>

record WorkerPool =
  maxWorkers :: nat
  queue :: "Object list"

text \<open>\<open>workerpool.New\<close>: there is always at least one worker.\<close>

definition workerpool_New :: "int \<Rightarrow> WorkerPool" where
  "workerpool_New n = \<lparr>maxWorkers = (if n < 1 then 1 else nat n), queue = []\<rparr>"

definition Submit :: "WorkerPool \<Rightarrow> Object \<Rightarrow> WorkerPool" where
  "Submit wp ob = wp\<lparr>queue := queue wp @ [ob]\<rparr>"

text \<open>
  \<open>wp.StopWait()\<close>: every queued task has run when it returns; the tasks take effect in the
  order the schedule gives for this pool size.
\<close>

definition StopWait :: "Runtime \<Rightarrow> WorkerPool \<Rightarrow> (Object \<Rightarrow> World \<Rightarrow> World) \<Rightarrow> World \<Rightarrow> World" where
  "StopWait rt wp task w = fold task (schedule rt (maxWorkers wp) (queue wp)) w"

subsection \<open>The resource data of the bucket schema\<close>

text \<open>
  The values the host hands over, typed by the schema of \<open>resourceStorageBucket\<close>. A block
  is a record of its attributes; an attribute the code looks up with \<open>v, ok := m[key]\<close> is an
  \<open>option\<close>. An element of a block list is \<open>None\<close> when the host delivers nil for it (a
  block with no attribute set and no prior value), which can happen for \<open>website\<close>, \<open>cors\<close> and \<open>encryption\<close>;
  \<open>versioning\<close> has a default and \<open>logging\<close> a required attribute. The sets \<open>action\<close> and
  \<open>condition\<close> are the lists \<open>Set.List()\<close> returns.
\<close>

record website_block =
  main_page_suffix :: "string option"
  not_found_page :: "string option"

record cors_block =
  cors_origin :: "string list"
  cors_method :: "string list"
  cors_response_header :: "string list"
  cors_max_age_seconds :: int

record logging_block =
  log_bucket :: string
  log_object_prefix :: string

record encryption_block =
  default_kms_key_name :: "string option"

record versioning_block =
  versioning_enabled :: bool

record action_block =
  action_type :: "string option"
  action_storage_class :: "string option"

record condition_block =
  age :: "int option"
  created_before :: "string option"
  is_live :: "bool option"
  matches_storage_class :: "string list option"
  num_newer_versions :: "int option"

record lifecycle_rule_block =
  rule_action :: "action_block list option"
  rule_condition :: "condition_block list option"

record Fields =
  name :: string
  encryption :: "encryption_block option list"
  requester_pays :: bool
  force_destroy :: bool
  labels :: "(string \<times> string) list"
  location :: string
  project :: string
  self_link :: string
  url :: string
  storage_class :: string
  lifecycle_rule :: "lifecycle_rule_block list"
  versioning :: "versioning_block list"
  website :: "website_block option list"
  cors :: "cors_block option list"
  logging :: "logging_block list"

text \<open>
  \<open>schema.ResourceData\<close>: the prior state, the current values (what \<open>d.Get\<close> reads and
  \<open>d.Set\<close> writes) and the resource id. \<open>d.GetChange(key)\<close> is the pair of the field in
  \<open>prior\<close> and in \<open>current\<close>, \<open>d.HasChange(key)\<close> says that the two differ, and \<open>d.GetOk(key)\<close>
  is true when the current value is not the zero value of its type.
\<close>

record ResourceData =
  prior :: Fields
  current :: Fields
  res_id :: string

definition HasChange :: "ResourceData \<Rightarrow> (Fields \<Rightarrow> 'a) \<Rightarrow> bool" where
  "HasChange d field = (field (prior d) \<noteq> field (current d))"

text \<open>Two label maps are equal as maps, whatever the order of their entries.\<close>

definition HasChange_labels :: "ResourceData \<Rightarrow> bool" where
  "HasChange_labels d = (set (labels (prior d)) \<noteq> set (labels (current d)))"

subsection \<open>Delete\<close>

text \<open>The closure submitted to the pool for one object version: a failure is only logged.\<close>

definition delete_task :: "string \<Rightarrow> Object \<Rightarrow> World \<Rightarrow> World" where
  "delete_task bucket ob w =
     (case Objects_Delete bucket ob w of
        (Some err, w1) \<Rightarrow>
          w1\<lparr>log_lines := log_lines w1 @ [''[ERR] Failed to delete storage object '' @ Name ob]\<rparr>
      | (None, w1) \<Rightarrow> w1)"

definition not_empty_error :: error where
  "not_empty_error =
     Errorf ''Error trying to delete a bucket containing objects without `force_destroy` set to true''"

text \<open>
  The \<open>for\<close> loop of \<open>resourceStorageBucketDelete\<close>. Its result is \<open>(Some err, w)\<close> where
  the code returns \<open>err\<close> from inside the loop and \<open>(None, w)\<close> where it breaks out of it.
  The loop need not end: the function is partial, and the value \<open>None\<close> of the whole is a
  run that never returns.
\<close>

partial_function (option) delete_loop ::
  "Runtime \<Rightarrow> ResourceData \<Rightarrow> string \<Rightarrow> World \<Rightarrow> (error option \<times> World) option" where
  "delete_loop rt d bucket w =
     (case Objects_List bucket w of
        (Inl err, w1) \<Rightarrow> Some (Some err, w1)
      | (Inr items, w1) \<Rightarrow>
          if length items \<noteq> 0 then
            if force_destroy (current d) then
              (let wp = workerpool_New (NumCPU rt - 1);
                   wp = fold (\<lambda>ob p. Submit p ob) items wp;
                   w2 = StopWait rt wp (delete_task bucket) w1
               in delete_loop rt d bucket w2)
            else Some (Some not_empty_error, w1)
          else Some (None, w1))"

text \<open>
  \<open>resource.Retry(1*time.Minute, ...)\<close> around \<open>Buckets.Delete\<close>: only a \<open>googleapi.Error\<close>
  with code 429 is retried, as long as the window allows; every other error is final.
\<close>

fun retry_Buckets_Delete :: "nat \<Rightarrow> string \<Rightarrow> World \<Rightarrow> error option \<times> World" where
  "retry_Buckets_Delete n bucket w =
     (case Buckets_Delete bucket w of
        (None, w1) \<Rightarrow> (None, w1)
      | (Some (ApiError c), w1) \<Rightarrow>
          (if c = 429
           then (case n of 0 \<Rightarrow> (Some (ApiError c), w1) | Suc m \<Rightarrow> retry_Buckets_Delete m bucket w1)
           else (Some (ApiError c), w1))
      | (Some e, w1) \<Rightarrow> (Some e, w1))"

definition resourceStorageBucketDelete ::
  "Runtime \<Rightarrow> ResourceData \<Rightarrow> World \<Rightarrow> (error option \<times> World) option" where
  "resourceStorageBucketDelete rt d w =
     (let bucket = name (current d) in
      case delete_loop rt d bucket w of
        None \<Rightarrow> None
      | Some (Some err, w1) \<Rightarrow> Some (Some err, w1)
      | Some (None, w1) \<Rightarrow>
          (case retry_Buckets_Delete (retry_budget rt) bucket w1 of
             (Some err, w2) \<Rightarrow> Some (Some err, w2)
           | (None, w2) \<Rightarrow> Some (None, w2)))"

subsection \<open>Expanding configuration blocks into API values\<close>

text \<open>The panics of indexing an empty slice and of writing through a nil pointer.\<close>

definition index_out_of_range :: error where
  "index_out_of_range = Panic ''runtime error: index out of range''"

definition nil_dereference :: error where
  "nil_dereference = Panic ''runtime error: invalid memory address or nil pointer dereference''"

text \<open>The zero value \<open>""\<close> where a key is missing.\<close>

definition string_or_zero :: "string option \<Rightarrow> string" where
  "string_or_zero v = (case v of None \<Rightarrow> [] | Some s \<Rightarrow> s)"

text \<open>
  Modelled from the spec: \<open>expandLabels\<close> is not among the sources; it gives the labels
  declared in the configuration, which the bucket specification carries.
\<close>

definition expandLabels :: "ResourceData \<Rightarrow> (string \<times> string) list" where
  "expandLabels d = labels (current d)"

fun expandCors :: "cors_block option list \<Rightarrow> error + BucketCors list" where
  "expandCors [] = Inr []"
| "expandCors (None # configured) = Inl nil_assertion"
| "expandCors (Some data # configured) =
     (case expandCors configured of
        Inl e \<Rightarrow> Inl e
      | Inr corsRules \<Rightarrow>
          Inr (\<lparr>Origin = cors_origin data, Method = cors_method data,
                ResponseHeader = cors_response_header data,
                MaxAgeSeconds = cors_max_age_seconds data\<rparr> # corsRules))"

fun expandBucketEncryption :: "encryption_block option list \<Rightarrow> error + BucketEncryption option" where
  "expandBucketEncryption [] = Inl index_out_of_range"
| "expandBucketEncryption (None # encs) = Inr None"
| "expandBucketEncryption (Some enc # encs) =
     (case default_kms_key_name enc of
        None \<Rightarrow> Inr None
      | Some keyname \<Rightarrow>
          if keyname = [] then Inr None else Inr (Some \<lparr>DefaultKmsKeyName = keyname\<rparr>))"

fun expandBucketLogging :: "logging_block list \<Rightarrow> error + BucketLogging" where
  "expandBucketLogging [] = Inl index_out_of_range"
| "expandBucketLogging (block # loggings) =
     Inr \<lparr>LogBucket = log_bucket block, LogObjectPrefix = log_object_prefix block\<rparr>"

fun expandBucketVersioning :: "versioning_block list \<Rightarrow> error + BucketVersioning" where
  "expandBucketVersioning [] = Inl index_out_of_range"
| "expandBucketVersioning (block # versionings) =
     Inr \<lparr>Enabled = versioning_enabled block, Versioning_ForceSendFields = [''Enabled'']\<rparr>"

subsection \<open>Lifecycle rules\<close>

definition lifecycle_action :: "action_block \<Rightarrow> BucketLifecycleRuleAction" where
  "lifecycle_action action =
     \<lparr>Action_Type = string_or_zero (action_type action),
      Action_StorageClass = string_or_zero (action_storage_class action)\<rparr>"

definition lifecycle_condition :: "condition_block \<Rightarrow> BucketLifecycleRuleCondition" where
  "lifecycle_condition condition =
     \<lparr>Age = (case age condition of None \<Rightarrow> 0 | Some v \<Rightarrow> v),
      CreatedBefore = string_or_zero (created_before condition),
      IsLive = is_live condition,
      MatchesStorageClass = (case matches_storage_class condition of None \<Rightarrow> [] | Some v \<Rightarrow> v),
      NumNewerVersions = (case num_newer_versions condition of None \<Rightarrow> 0 | Some v \<Rightarrow> v)\<rparr>"

text \<open>The body of the loop over the rules: one rule, or the error that ends the function.\<close>

definition lifecycle_rule_target :: "lifecycle_rule_block \<Rightarrow> error + BucketLifecycleRule" where
  "lifecycle_rule_target r =
     (case (case rule_action r of
              None \<Rightarrow> Inr None
            | Some actions \<Rightarrow>
                (case actions of
                   [action] \<Rightarrow> Inr (Some (lifecycle_action action))
                 | _ \<Rightarrow> Inl (Errorf ''Exactly one action is required''))) of
        Inl e \<Rightarrow> Inl e
      | Inr target_action \<Rightarrow>
          (case rule_condition r of
             None \<Rightarrow> Inr \<lparr>Action = target_action, Condition = None\<rparr>
           | Some conditions \<Rightarrow>
               (case conditions of
                  [condition] \<Rightarrow>
                    Inr \<lparr>Action = target_action, Condition = Some (lifecycle_condition condition)\<rparr>
                | _ \<Rightarrow> Inl (Errorf ''Exactly one condition is required''))))"

fun lifecycle_rules :: "lifecycle_rule_block list \<Rightarrow> BucketLifecycleRule list \<Rightarrow> error + BucketLifecycleRule list" where
  "lifecycle_rules [] acc = Inr acc"
| "lifecycle_rules (r # rs) acc =
     (case lifecycle_rule_target r of
        Inl e \<Rightarrow> Inl e
      | Inr target \<Rightarrow> lifecycle_rules rs (acc @ [target]))"

definition resourceGCSBucketLifecycleCreateOrUpdate :: "ResourceData \<Rightarrow> Bucket \<Rightarrow> error + Bucket" where
  "resourceGCSBucketLifecycleCreateOrUpdate d sb =
     (if lifecycle_rule (current d) \<noteq> [] then
        (case lifecycle_rules (lifecycle_rule (current d)) [] of
           Inl e \<Rightarrow> Inl e
         | Inr rules \<Rightarrow> Inr (sb\<lparr>Lifecycle := Some \<lparr>Rule = rules, Lifecycle_ForceSendFields = []\<rparr>\<rparr>))
      else Inr (sb\<lparr>Lifecycle := Some \<lparr>Rule = [], Lifecycle_ForceSendFields = [''Rule'']\<rparr>\<rparr>))"

subsection \<open>The remote calls on buckets and projects\<close>

definition is_insert :: "call \<Rightarrow> bool" where
  "is_insert c = (case c of BucketsInsert _ _ \<Rightarrow> True | _ \<Rightarrow> False)"

definition Buckets_Insert :: "string \<Rightarrow> Bucket \<Rightarrow> World \<Rightarrow> (error + Bucket) \<times> World" where
  "Buckets_Insert proj sb w =
     (insert_answer w (length (filter is_insert (calls w))), issue (BucketsInsert proj sb) w)"

definition Buckets_Patch :: "string \<Rightarrow> Bucket \<Rightarrow> World \<Rightarrow> (error + Bucket) \<times> World" where
  "Buckets_Patch bucket sb w = (patch_answer w, issue (BucketsPatch bucket sb) w)"

definition Buckets_Get :: "string \<Rightarrow> World \<Rightarrow> (error + Bucket) \<times> World" where
  "Buckets_Get bucket w = (get_answer w, issue (BucketsGet bucket) w)"

definition Projects_Get :: "string \<Rightarrow> World \<Rightarrow> (error + string) \<times> World" where
  "Projects_Get number w = (project_answer w, issue (ProjectsGet number) w)"

text \<open>
  The provider configuration (\<open>meta.(*Config)\<close>). \<open>getProject\<close> is not among the sources
  and is taken as a parameter; \<open>transient\<close> says which errors the helper \<open>retry\<close> retries.
\<close>

record Meta =
  getProject :: "ResourceData \<Rightarrow> error + string"
  transient :: "error \<Rightarrow> bool"

text \<open>
  Modelled from the spec: \<open>retry\<close> is not among the sources; the create call is retried on
  remote-transient error classes, with bounded attempts.
\<close>

fun retry_Buckets_Insert ::
  "(error \<Rightarrow> bool) \<Rightarrow> nat \<Rightarrow> string \<Rightarrow> Bucket \<Rightarrow> World \<Rightarrow> (error + Bucket) \<times> World" where
  "retry_Buckets_Insert is_transient n proj sb w =
     (case Buckets_Insert proj sb w of
        (Inr res, w1) \<Rightarrow> (Inr res, w1)
      | (Inl err, w1) \<Rightarrow>
          (if is_transient err
           then (case n of 0 \<Rightarrow> (Inl err, w1) | Suc m \<Rightarrow> retry_Buckets_Insert is_transient m proj sb w1)
           else (Inl err, w1)))"

subsection \<open>Read\<close>

text \<open>
  Modelled from the spec: \<open>handleNotFoundError\<close> is not among the sources; a not-found
  answer becomes the signal that the resource is absent (its id is cleared and no error is
  returned), any other error is returned.
\<close>

definition handleNotFoundError :: "error \<Rightarrow> ResourceData \<Rightarrow> error option \<times> ResourceData" where
  "handleNotFoundError err d =
     (if err = ApiError 404 then (None, d\<lparr>res_id := []\<rparr>)
      else (Some (Wrap ''Error reading Storage Bucket'' err), d))"

text \<open>\<open>strconv.FormatUint(n, 10)\<close>.\<close>

fun FormatUint :: "nat \<Rightarrow> string" where
  "FormatUint n =
     (if n < 10 then [char_of (48 + n)]
      else FormatUint (n div 10) @ [char_of (48 + n mod 10)])"

definition flattenCors :: "BucketCors list option \<Rightarrow> cors_block option list" where
  "flattenCors corsRules =
     (case corsRules of
        None \<Rightarrow> []
      | Some rules \<Rightarrow>
          map (\<lambda>corsRule. Some \<lparr>cors_origin = Origin corsRule, cors_method = Method corsRule,
                                 cors_response_header = ResponseHeader corsRule,
                                 cors_max_age_seconds = MaxAgeSeconds corsRule\<rparr>) rules)"

definition flattenBucketEncryption :: "BucketEncryption option \<Rightarrow> encryption_block option list" where
  "flattenBucketEncryption enc =
     (case enc of
        None \<Rightarrow> []
      | Some e \<Rightarrow> [Some \<lparr>default_kms_key_name = Some (DefaultKmsKeyName e)\<rparr>])"

definition flattenBucketLogging :: "BucketLogging option \<Rightarrow> logging_block list" where
  "flattenBucketLogging bucketLogging =
     (case bucketLogging of
        None \<Rightarrow> []
      | Some l \<Rightarrow> [\<lparr>log_bucket = LogBucket l, log_object_prefix = LogObjectPrefix l\<rparr>])"

definition flattenBucketVersioning :: "BucketVersioning option \<Rightarrow> versioning_block list" where
  "flattenBucketVersioning bucketVersioning =
     (case bucketVersioning of
        None \<Rightarrow> []
      | Some v \<Rightarrow> [\<lparr>versioning_enabled = Enabled v\<rparr>])"

text \<open>Both functions read through their pointer argument: a nil pointer is a panic.\<close>

definition flattenBucketLifecycleRuleAction :: "BucketLifecycleRuleAction option \<Rightarrow> error + action_block" where
  "flattenBucketLifecycleRuleAction action =
     (case action of
        None \<Rightarrow> Inl nil_dereference
      | Some a \<Rightarrow> Inr \<lparr>action_type = Some (Action_Type a),
                       action_storage_class = Some (Action_StorageClass a)\<rparr>)"

definition flattenBucketLifecycleRuleCondition ::
  "BucketLifecycleRuleCondition option \<Rightarrow> error + condition_block" where
  "flattenBucketLifecycleRuleCondition condition =
     (case condition of
        None \<Rightarrow> Inl nil_dereference
      | Some c \<Rightarrow> Inr \<lparr>age = Some (Age c), created_before = Some (CreatedBefore c),
                       is_live = IsLive c,
                       matches_storage_class = Some (MatchesStorageClass c),
                       num_newer_versions = Some (NumNewerVersions c)\<rparr>)"

fun flatten_rules :: "BucketLifecycleRule list \<Rightarrow> lifecycle_rule_block list \<Rightarrow> error + lifecycle_rule_block list" where
  "flatten_rules [] rules = Inr rules"
| "flatten_rules (r # rs) rules =
     (case flattenBucketLifecycleRuleAction (Action r) of
        Inl e \<Rightarrow> Inl e
      | Inr a \<Rightarrow>
          (case flattenBucketLifecycleRuleCondition (Condition r) of
             Inl e \<Rightarrow> Inl e
           | Inr c \<Rightarrow>
               flatten_rules rs (rules @ [\<lparr>rule_action = Some [a], rule_condition = Some [c]\<rparr>])))"

definition flattenBucketLifecycle :: "BucketLifecycle option \<Rightarrow> error + lifecycle_rule_block list" where
  "flattenBucketLifecycle lc =
     (case lc of
        None \<Rightarrow> Inr []
      | Some l \<Rightarrow> flatten_rules (Rule l) [])"

definition resourceStorageBucketRead ::
  "ResourceData \<Rightarrow> World \<Rightarrow> error option \<times> ResourceData \<times> World" where
  "resourceStorageBucketRead d w =
     (let bucket = name (current d) in
      case Buckets_Get bucket w of
        (Inl err, w1) \<Rightarrow> (case handleNotFoundError err d of (e, d1) \<Rightarrow> (e, d1, w1))
      | (Inr res, w1) \<Rightarrow>
          (case (if project (current d) = []
                 then (case Projects_Get (FormatUint (ProjectNumber res)) w1 of
                         (Inl err, w2) \<Rightarrow> (Inl err, w2)
                       | (Inr proj, w2) \<Rightarrow> (Inr (d\<lparr>current := (current d)\<lparr>project := proj\<rparr>\<rparr>), w2))
                 else (Inr d, w1)) of
             (Inl err, w2) \<Rightarrow> (Some err, d, w2)
           | (Inr d1, w2) \<Rightarrow>
               (let d2 = d1\<lparr>current := (current d1)
                          \<lparr>self_link := SelfLink res,
                           url := ''gs://'' @ bucket,
                           storage_class := StorageClass res,
                           encryption := flattenBucketEncryption (Encryption res),
                           location := Location res,
                           cors := flattenCors (Cors res),
                           logging := flattenBucketLogging (Logging res),
                           versioning := flattenBucketVersioning (Versioning res)\<rparr>\<rparr>
                in case flattenBucketLifecycle (Lifecycle res) of
                     Inl e \<Rightarrow> (Some e, d2, w2)
                   | Inr rules \<Rightarrow>
                       (None,
                        d2\<lparr>current := (current d2)
                             \<lparr>lifecycle_rule := rules,
                              labels := Labels res,
                              requester_pays :=
                                (case Billing res of None \<Rightarrow> False | Some b \<Rightarrow> RequesterPays b)\<rparr>,
                           res_id := Bucket_Id res\<rparr>,
                        w2))))"

subsection \<open>Create\<close>

definition website_error :: error where
  "website_error = Errorf ''At most one website block is allowed''"

text \<open>The \<open>website\<close> block of \<open>resourceStorageBucketCreate\<close>.\<close>

definition create_website :: "ResourceData \<Rightarrow> Bucket \<Rightarrow> error + Bucket" where
  "create_website d sb =
     (if website (current d) \<noteq> [] then
        (let websites = website (current d) in
         if length websites > 1 then Inl website_error
         else (case websites of
                 [] \<Rightarrow> Inl index_out_of_range
               | None # _ \<Rightarrow> Inl nil_assertion
               | Some block # _ \<Rightarrow>
                   Inr (sb\<lparr>Website := Some \<lparr>MainPageSuffix = string_or_zero (main_page_suffix block),
                                            NotFoundPage = string_or_zero (not_found_page block)\<rparr>\<rparr>)))
      else Inr sb)"

text \<open>The bucket \<open>sb\<close> as \<open>resourceStorageBucketCreate\<close> builds it before the insert call.\<close>

definition create_bucket :: "ResourceData \<Rightarrow> error + Bucket" where
  "create_bucket d =
     (let bucket = name (current d);
          sb = empty_Bucket\<lparr>Bucket_Name := bucket, Labels := expandLabels d,
                            Location := location (current d)\<rparr>;
          sb = (if storage_class (current d) \<noteq> []
                then sb\<lparr>StorageClass := storage_class (current d)\<rparr> else sb)
      in case resourceGCSBucketLifecycleCreateOrUpdate d sb of
           Inl err \<Rightarrow> Inl err
         | Inr sb \<Rightarrow>
             (case (if versioning (current d) \<noteq> []
                    then (case expandBucketVersioning (versioning (current d)) of
                            Inl e \<Rightarrow> Inl e
                          | Inr v \<Rightarrow> Inr (sb\<lparr>Versioning := Some v\<rparr>))
                    else Inr sb) of
                Inl err \<Rightarrow> Inl err
              | Inr sb \<Rightarrow>
                  (case create_website d sb of
                     Inl err \<Rightarrow> Inl err
                   | Inr sb \<Rightarrow>
                       (case (if cors (current d) \<noteq> []
                              then (case expandCors (cors (current d)) of
                                      Inl e \<Rightarrow> Inl e
                                    | Inr c \<Rightarrow> Inr (sb\<lparr>Cors := Some c\<rparr>))
                              else Inr sb) of
                          Inl err \<Rightarrow> Inl err
                        | Inr sb \<Rightarrow>
                            (case (if logging (current d) \<noteq> []
                                   then (case expandBucketLogging (logging (current d)) of
                                           Inl e \<Rightarrow> Inl e
                                         | Inr l \<Rightarrow> Inr (sb\<lparr>Logging := Some l\<rparr>))
                                   else Inr sb) of
                               Inl err \<Rightarrow> Inl err
                             | Inr sb \<Rightarrow>
                                 (case (if encryption (current d) \<noteq> []
                                        then (case expandBucketEncryption (encryption (current d)) of
                                                Inl e \<Rightarrow> Inl e
                                              | Inr enc \<Rightarrow> Inr (sb\<lparr>Encryption := enc\<rparr>))
                                        else Inr sb) of
                                    Inl err \<Rightarrow> Inl err
                                  | Inr sb \<Rightarrow>
                                      Inr (if requester_pays (current d)
                                           then sb\<lparr>Billing := Some \<lparr>RequesterPays = requester_pays (current d),
                                                                   Billing_ForceSendFields = []\<rparr>\<rparr>
                                           else sb)))))))"

definition resourceStorageBucketCreate ::
  "Meta \<Rightarrow> Runtime \<Rightarrow> ResourceData \<Rightarrow> World \<Rightarrow> error option \<times> ResourceData \<times> World" where
  "resourceStorageBucketCreate meta rt d w =
     (case getProject meta d of
        Inl err \<Rightarrow> (Some err, d, w)
      | Inr proj \<Rightarrow>
          (case create_bucket d of
             Inl err \<Rightarrow> (Some err, d, w)
           | Inr sb \<Rightarrow>
               (case retry_Buckets_Insert (transient meta) (retry_budget rt) proj sb w of
                  (Inl err, w1) \<Rightarrow> (Some err, d, w1)
                | (Inr res, w1) \<Rightarrow> resourceStorageBucketRead (d\<lparr>res_id := Bucket_Id res\<rparr>) w1)))"

subsection \<open>Update\<close>

text \<open>
  The blocks of \<open>resourceStorageBucketUpdate\<close>, one function for each field, in the order
  of the source; each takes the patch \<open>sb\<close> built so far.
\<close>

definition update_lifecycle :: "ResourceData \<Rightarrow> Bucket \<Rightarrow> error + Bucket" where
  "update_lifecycle d sb =
     (if HasChange d lifecycle_rule then resourceGCSBucketLifecycleCreateOrUpdate d sb
      else Inr sb)"

definition update_billing :: "ResourceData \<Rightarrow> Bucket \<Rightarrow> Bucket" where
  "update_billing d sb =
     (if HasChange d requester_pays
      then sb\<lparr>Billing := Some \<lparr>RequesterPays = requester_pays (current d),
                               Billing_ForceSendFields = [''RequesterPays'']\<rparr>\<rparr>
      else sb)"

definition update_versioning :: "ResourceData \<Rightarrow> Bucket \<Rightarrow> error + Bucket" where
  "update_versioning d sb =
     (if HasChange d versioning then
        (if versioning (current d) \<noteq> [] then
           (case expandBucketVersioning (versioning (current d)) of
              Inl e \<Rightarrow> Inl e
            | Inr v \<Rightarrow> Inr (sb\<lparr>Versioning := Some v\<rparr>))
         else Inr sb)
      else Inr sb)"

text \<open>
  In the branch for an empty list or a nil first element the source assigns to
  \<open>sb.Website.NotFoundPage\<close> and \<open>sb.Website.MainPageSuffix\<close> through the pointer
  \<open>sb.Website\<close>, without allocating it.
\<close>

definition update_website :: "ResourceData \<Rightarrow> Bucket \<Rightarrow> error + Bucket" where
  "update_website d sb =
     (if HasChange d website then
        (if website (current d) \<noteq> [] then
           (let websites = website (current d) in
            if length websites > 1 then Inl website_error
            else if length websites = 0 \<or> hd websites = None then
              (case Website sb of
                 None \<Rightarrow> Inl nil_dereference
               | Some ws \<Rightarrow> Inr (sb\<lparr>Website := Some (ws\<lparr>NotFoundPage := [], MainPageSuffix := []\<rparr>)\<rparr>))
            else
              (case hd websites of
                 None \<Rightarrow> Inl nil_assertion
               | Some block \<Rightarrow>
                   Inr (sb\<lparr>Website := Some \<lparr>MainPageSuffix = string_or_zero (main_page_suffix block),
                                            NotFoundPage = string_or_zero (not_found_page block)\<rparr>\<rparr>)))
         else Inr sb)
      else Inr sb)"

definition update_cors :: "ResourceData \<Rightarrow> Bucket \<Rightarrow> error + Bucket" where
  "update_cors d sb =
     (if cors (current d) \<noteq> [] then
        (case expandCors (cors (current d)) of
           Inl e \<Rightarrow> Inl e
         | Inr c \<Rightarrow> Inr (sb\<lparr>Cors := Some c\<rparr>))
      else Inr sb)"

definition update_logging :: "ResourceData \<Rightarrow> Bucket \<Rightarrow> error + Bucket" where
  "update_logging d sb =
     (if HasChange d logging then
        (if logging (current d) \<noteq> [] then
           (case expandBucketLogging (logging (current d)) of
              Inl e \<Rightarrow> Inl e
            | Inr l \<Rightarrow> Inr (sb\<lparr>Logging := Some l\<rparr>))
         else Inr (sb\<lparr>NullFields := NullFields sb @ [''Logging'']\<rparr>))
      else Inr sb)"

definition update_encryption :: "ResourceData \<Rightarrow> Bucket \<Rightarrow> error + Bucket" where
  "update_encryption d sb =
     (if HasChange d encryption then
        (if encryption (current d) \<noteq> [] then
           (case expandBucketEncryption (encryption (current d)) of
              Inl e \<Rightarrow> Inl e
            | Inr enc \<Rightarrow> Inr (sb\<lparr>Encryption := enc\<rparr>))
         else Inr (sb\<lparr>NullFields := NullFields sb @ [''Encryption'']\<rparr>))
      else Inr sb)"

text \<open>The loop over the old labels: a key the new labels lack gets its own null marker.\<close>

definition null_label :: "string \<times> string \<Rightarrow> Bucket \<Rightarrow> Bucket" where
  "null_label kv sb =
     (if map_of (Labels sb) (fst kv) = None
      then sb\<lparr>NullFields := NullFields sb @ [''Labels.'' @ fst kv]\<rparr>
      else sb)"

definition update_labels :: "ResourceData \<Rightarrow> Bucket \<Rightarrow> Bucket" where
  "update_labels d sb =
     (if HasChange_labels d then
        (let sb = sb\<lparr>Labels := expandLabels d\<rparr>;
             sb = (if length (Labels sb) = 0
                   then sb\<lparr>NullFields := NullFields sb @ [''Labels'']\<rparr> else sb);
             old = labels (prior d)
         in fold null_label old sb)
      else sb)"

text \<open>The patch \<open>sb\<close> as \<open>resourceStorageBucketUpdate\<close> builds it before the patch call.\<close>

definition update_patch :: "ResourceData \<Rightarrow> error + Bucket" where
  "update_patch d =
     (case update_lifecycle d empty_Bucket of
        Inl err \<Rightarrow> Inl err
      | Inr sb \<Rightarrow>
          (case update_versioning d (update_billing d sb) of
             Inl err \<Rightarrow> Inl err
           | Inr sb \<Rightarrow>
               (case update_website d sb of
                  Inl err \<Rightarrow> Inl err
                | Inr sb \<Rightarrow>
                    (case update_cors d sb of
                       Inl err \<Rightarrow> Inl err
                     | Inr sb \<Rightarrow>
                         (case update_logging d sb of
                            Inl err \<Rightarrow> Inl err
                          | Inr sb \<Rightarrow>
                              (case update_encryption d sb of
                                 Inl err \<Rightarrow> Inl err
                               | Inr sb \<Rightarrow> Inr (update_labels d sb)))))))"

definition resourceStorageBucketUpdate ::
  "ResourceData \<Rightarrow> World \<Rightarrow> error option \<times> ResourceData \<times> World" where
  "resourceStorageBucketUpdate d w =
     (case update_patch d of
        Inl err \<Rightarrow> (Some err, d, w)
      | Inr sb \<Rightarrow>
          (case Buckets_Patch (name (current d)) sb w of
             (Inl err, w1) \<Rightarrow> (Some err, d, w1)
           | (Inr res, w1) \<Rightarrow>
               (None,
                d\<lparr>current := (current d)\<lparr>self_link := SelfLink res\<rparr>, res_id := Bucket_Id res\<rparr>,
                w1)))"

subsection \<open>Reading a trace\<close>


definition delete_call :: "string \<Rightarrow> Object \<Rightarrow> call" where
  "delete_call b ob = ObjectsDelete b (Name ob) (Generation ob)"

text \<open>A world in which the deletion of the first object version is refused for good.\<close>

definition stuck :: "World \<Rightarrow> bool" where
  "stuck w = (objects w \<noteq> [] \<and> locked w (hd (objects w)) \<and> list_error w = None \<and> 0 < page_size w)"

subsection \<open>Sample buckets\<close>

definition no_fields :: Fields where
  "no_fields =
     \<lparr>name = ''b'', encryption = [], requester_pays = False, force_destroy = False, labels = [],
      location = ''US'', project = ''p'', self_link = [], url = [], storage_class = ''STANDARD'',
      lifecycle_rule = [], versioning = [], website = [], cors = [], logging = []\<rparr>"

text \<open>A resource data with the given prior and current values of bucket \<open>b\<close>.\<close>

definition bucket_data :: "Fields \<Rightarrow> Fields \<Rightarrow> ResourceData" where
  "bucket_data old new = \<lparr>prior = old, current = new, res_id = ''b''\<rparr>"

text \<open>
  A service that holds the given object versions, lists one per call and answers every
  call with success.
\<close>

definition quiet_world :: "Object list \<Rightarrow> World" where
  "quiet_world obs =
     \<lparr>objects = obs, page_size = 1, list_error = None, locked = (\<lambda>_. False), flaky = (\<lambda>_. 0),
      rate_limited = 0, insert_answer = (\<lambda>_. Inr empty_Bucket), patch_answer = Inr empty_Bucket,
      get_answer = Inr empty_Bucket, project_answer = Inr ''p'', calls = [], log_lines = []\<rparr>"


definition refusing_always :: "Object list \<Rightarrow> World" where
  "refusing_always obs = (quiet_world obs)\<lparr>locked := (\<lambda>_. True)\<rparr>"

text \<open>A process with four CPUs whose pool runs the queued deletions last-in first-out.\<close>

definition four_cpus :: Runtime where
  "four_cpus = \<lparr>NumCPU = 4, schedule = (\<lambda>n xs. rev xs), retry_budget = 3\<rparr>"

definition provider :: Meta where
  "provider = \<lparr>getProject = (\<lambda>d. Inr (project (current d))), transient = (\<lambda>e. e = ApiError 503)\<rparr>"

definition object_a :: Object where
  "object_a = \<lparr>Name = ''a'', Generation = 1\<rparr>"


definition index_page :: website_block where
  "index_page = \<lparr>main_page_suffix = Some ''index.html'', not_found_page = Some ''404.html''\<rparr>"

definition any_origin :: cors_block where
  "any_origin = \<lparr>cors_origin = [''*''], cors_method = [''GET''], cors_response_header = [],
                  cors_max_age_seconds = 3600\<rparr>"

text \<open>Bucket \<open>b\<close> with \<open>force_destroy\<close> set, and a configuration with two website blocks.\<close>

definition forced :: ResourceData where
  "forced = bucket_data (no_fields\<lparr>force_destroy := True\<rparr>) (no_fields\<lparr>force_destroy := True\<rparr>)"

definition two_websites :: Fields where
  "two_websites = no_fields\<lparr>website := [Some index_page, Some index_page]\<rparr>"

declare retry_Buckets_Delete.simps [simp del]

declare retry_Buckets_Insert.simps [simp del]

section \<open>Properties of the label helpers\<close>

text \<open>What a run of \<open>SetLabelsDiff\<close> that goes through both writes leaves in the diff.\<close>

lemma SetLabelsDiff_success:
  assumes "diff_Get d ''labels'' = Some U"
    and "setnew_error d ''terraform_labels'' = None"
    and "setnew_error d ''effective_labels'' = None"
    and "diff_old d ''terraform_labels'' = Some old"
    and "diff_new d ''effective_labels'' = Some E"
  shows "SetLabelsDiff config d =
    (None, d\<lparr>diff_new := (diff_new d)
        (''terraform_labels'' := Some (DefaultLabels config ++ U),
         ''effective_labels'' := Some (\<lambda>k. if old k \<noteq> None \<and> (DefaultLabels config ++ U) k = None then None
                 else (E ++ (DefaultLabels config ++ U)) k))\<rparr>)"
  using assms
  by (simp add: SetLabelsDiff_def diff_Get_def diff_SetNew_def diff_GetChange_def Let_def)

lemma SetLabelsDiff_no_error_cases:
  assumes "SetLabelsDiff config d = (None, d')"
  shows "(diff_Get d ''labels'' = None \<and> d' = d) \<or>
         (\<exists>U old E. diff_Get d ''labels'' = Some U \<and> setnew_error d ''terraform_labels'' = None \<and>
            setnew_error d ''effective_labels'' = None \<and> diff_old d ''terraform_labels'' = Some old \<and>
            diff_new d ''effective_labels'' = Some E)"
  using assms
  by (auto simp: SetLabelsDiff_def diff_Get_def diff_SetNew_def diff_GetChange_def Let_def
      split: option.splits if_splits prod.splits)

text \<open>
  Claim C1, as stated, fails: the reconciler starts from the prior \<open>effective_labels\<close>, so a
  key there that neither the prior \<open>terraform_labels\<close> nor \<open>D \<union> U\<close> has (a label attached
  by another system) stays. With no defaults, no user labels and a prior effective label
  \<open>goog-managed\<close>, the new effective labels are not \<open>D \<union> U\<close>.
\<close>

theorem SetLabelsDiff_effective_counterexample:
  "diff_new (snd (SetLabelsDiff no_defaults
       (plan_diff (Some Map.empty) Map.empty [''goog-managed'' \<mapsto> ''x''])))
     ''effective_labels''
   \<noteq> Some (DefaultLabels no_defaults ++ Map.empty)"
proof -
  have "diff_new (snd (SetLabelsDiff no_defaults
       (plan_diff (Some Map.empty) Map.empty [''goog-managed'' \<mapsto> ''x'']))) ''effective_labels''
     = Some [''goog-managed'' \<mapsto> ''x'']"
    by (simp add: SetLabelsDiff_def diff_Get_def diff_SetNew_def diff_GetChange_def Let_def
        plan_diff_def no_defaults_def fun_eq_iff)
  moreover have "[''goog-managed'' \<mapsto> ''x''] \<noteq> (DefaultLabels no_defaults ++ Map.empty :: labels)"
    by (simp add: no_defaults_def)
  ultimately show ?thesis by simp
qed

text \<open>
  Claim C1, amended: when the user labels and the prior maps are present and the host
  accepts both writes, \<open>SetLabelsDiff\<close> sets \<open>terraform_labels\<close> to \<open>D \<union> U\<close> (\<open>U\<close> winning) and
  \<open>effective_labels\<close> to the prior effective labels overlaid with \<open>D \<union> U\<close>, minus every key
  of the prior \<open>terraform_labels\<close> that \<open>D \<union> U\<close> lacks. The result is \<open>D \<union> U\<close> whenever every
  prior effective key is a key of the prior \<open>terraform_labels\<close> or of \<open>D \<union> U\<close>, and every key
  of the prior \<open>terraform_labels\<close> that the new user labels lack is removed unless \<open>D\<close> has
  it, in which case it carries \<open>D\<close>'s value.
\<close>

theorem SetLabelsDiff_effective:
  assumes "diff_Get d ''labels'' = Some U"
    and "setnew_error d ''terraform_labels'' = None"
    and "setnew_error d ''effective_labels'' = None"
    and "diff_old d ''terraform_labels'' = Some old"
    and "diff_new d ''effective_labels'' = Some E"
  shows "\<exists>d' eff. SetLabelsDiff config d = (None, d')
     \<and> diff_new d' ''terraform_labels'' = Some (DefaultLabels config ++ U)
     \<and> diff_new d' ''effective_labels'' = Some eff
     \<and> (\<forall>k. eff k = (if old k \<noteq> None \<and> (DefaultLabels config ++ U) k = None then None
                       else (E ++ (DefaultLabels config ++ U)) k))
     \<and> (dom E \<subseteq> dom old \<union> dom (DefaultLabels config ++ U) \<longrightarrow> eff = DefaultLabels config ++ U)
     \<and> (\<forall>k. old k \<noteq> None \<and> U k = None \<longrightarrow> eff k = DefaultLabels config k)"
proof -
  let ?n = "DefaultLabels config ++ U"
  let ?eff = "\<lambda>k. if old k \<noteq> None \<and> ?n k = None then None else (E ++ ?n) k"
  let ?d' = "d\<lparr>diff_new := (diff_new d)(''terraform_labels'' := Some ?n, ''effective_labels'' := Some ?eff)\<rparr>"
  have run: "SetLabelsDiff config d = (None, ?d')"
    by (rule SetLabelsDiff_success [OF assms])
  have tl: "diff_new ?d' ''terraform_labels'' = Some ?n" by simp
  have el: "diff_new ?d' ''effective_labels'' = Some ?eff" by simp
  have sub: "dom E \<subseteq> dom old \<union> dom ?n \<longrightarrow> ?eff = ?n"
  proof
    assume s: "dom E \<subseteq> dom old \<union> dom ?n"
    show "?eff = ?n"
    proof
      fix k
      show "?eff k = ?n k"
      proof (cases "?n k")
        case None
        with s have "E k = None \<or> old k \<noteq> None" by (auto simp: domIff)
        with None show ?thesis by (auto simp: map_add_def)
      next
        case (Some v)
        then show ?thesis by (simp add: map_add_def)
      qed
    qed
  qed
  have rem: "\<forall>k. old k \<noteq> None \<and> U k = None \<longrightarrow> ?eff k = DefaultLabels config k"
    by (auto simp: map_add_def split: option.splits)
  show ?thesis
    apply (rule exI [of _ ?d'])
    apply (rule exI [of _ ?eff])
    using run tl el sub rem apply (intro conjI)
         apply assumption+
      apply simp
     apply assumption+
    done
qed


theorem SetLabelsDiff_effective_witness:
  "diff_new (snd (SetLabelsDiff env_prod
       (plan_diff (Some Map.empty) [''env'' \<mapsto> ''prod'', ''team'' \<mapsto> ''x'']
          [''env'' \<mapsto> ''prod'', ''team'' \<mapsto> ''x''])))
     ''effective_labels'' = Some [''env'' \<mapsto> ''prod'']"
proof -
  let ?m = "[''env'' \<mapsto> ''prod'', ''team'' \<mapsto> ''x'']"
  let ?d = "plan_diff (Some Map.empty) ?m ?m"
  have h1: "diff_Get ?d ''labels'' = Some Map.empty"
    and h2: "setnew_error ?d ''terraform_labels'' = None"
    and h3: "setnew_error ?d ''effective_labels'' = None"
    and h4: "diff_old ?d ''terraform_labels'' = Some ?m"
    and h5: "diff_new ?d ''effective_labels'' = Some ?m"
    by (simp_all add: plan_diff_def diff_Get_def)
  from SetLabelsDiff_effective [OF h1 h2 h3 h4 h5, of env_prod]
  obtain d' eff where run: "SetLabelsDiff env_prod ?d = (None, d')"
    and el: "diff_new d' ''effective_labels'' = Some eff"
    and sub: "dom ?m \<subseteq> dom ?m \<union> dom (DefaultLabels env_prod ++ Map.empty)
              \<longrightarrow> eff = DefaultLabels env_prod ++ Map.empty"
    by blast
  from sub have "eff = [''env'' \<mapsto> ''prod'']" by (simp add: env_prod_def)
  with run el show ?thesis by simp
qed

text \<open>
  Claim C5: on a successful read-side projection the label map \<open>SetLabels\<close> stores has only
  keys of the declared configuration, whatever the remote read returned.
\<close>

theorem SetLabels_keys_subset:
  "SetLabels remote d lineage = (None, d') \<Longrightarrow>
   \<exists>m. data_fields d' lineage = Some m \<and> dom m \<subseteq> declared_keys d lineage"
  by (auto simp: SetLabels_def data_GetOk_def data_Set_def declared_keys_def Let_def
      split: option.splits if_splits bool.splits)

theorem SetLabels_keys_subset_witness:
  "SetLabels (Some [''team'' \<mapsto> ''x'', ''goog-managed'' \<mapsto> ''y'']) (read_data (Some [''team'' \<mapsto> ''x''])) ''labels''
     = (None, read_data (Some [''team'' \<mapsto> ''x'']))
   \<and> (\<exists>m. data_fields (read_data (Some [''team'' \<mapsto> ''x''])) ''labels'' = Some m
        \<and> dom m \<subseteq> declared_keys (read_data (Some [''team'' \<mapsto> ''x''])) ''labels'')"
proof -
  have run: "SetLabels (Some [''team'' \<mapsto> ''x'', ''goog-managed'' \<mapsto> ''y''])
      (read_data (Some [''team'' \<mapsto> ''x''])) ''labels'' = (None, read_data (Some [''team'' \<mapsto> ''x'']))"
    by (simp add: SetLabels_def data_GetOk_def data_Set_def read_data_def index_or_zero_def
        Let_def fun_eq_iff)
  from SetLabels_keys_subset [OF run] run show ?thesis by simp
qed

text \<open>
  Claim C6: a reconciliation that returned no error is idempotent. Once its plan is
  applied, a second reconciliation with the same configuration returns no error and leaves
  the whole diff, \<open>terraform_labels\<close> and \<open>effective_labels\<close> included, as it was.
\<close>

theorem SetLabelsDiff_idempotent:
  assumes "SetLabelsDiff config d = (None, d')"
  shows "SetLabelsDiff config (applied d') = (None, applied d')"
proof -
  from SetLabelsDiff_no_error_cases [OF assms]
  consider (nil) "diff_Get d ''labels'' = None" "d' = d"
    | (run) U old E where "diff_Get d ''labels'' = Some U"
        "setnew_error d ''terraform_labels'' = None"
        "setnew_error d ''effective_labels'' = None"
        "diff_old d ''terraform_labels'' = Some old"
        "diff_new d ''effective_labels'' = Some E"
    by auto
  then show ?thesis
  proof cases
    case nil
    then show ?thesis
      by (simp add: SetLabelsDiff_def applied_def diff_Get_def)
  next
    case run
    let ?n = "DefaultLabels config ++ U"
    let ?eff = "\<lambda>k. if old k \<noteq> None \<and> ?n k = None then None else (E ++ ?n) k"
    have d': "d' = d\<lparr>diff_new := (diff_new d)(''terraform_labels'' := Some ?n, ''effective_labels'' := Some ?eff)\<rparr>"
      using SetLabelsDiff_success [OF run, of config] assms by simp
    have lab: "diff_new d ''labels'' = Some U"
      using run(1) by (simp add: diff_Get_def)
    have g1: "diff_Get (applied d') ''labels'' = Some U"
      using lab by (simp add: d' applied_def diff_Get_def)
    have g2: "setnew_error (applied d') ''terraform_labels'' = None"
      and g3: "setnew_error (applied d') ''effective_labels'' = None"
      using run by (simp_all add: d' applied_def)
    have g4: "diff_old (applied d') ''terraform_labels'' = Some ?n"
      by (simp add: d' applied_def)
    have g5: "diff_new (applied d') ''effective_labels'' = Some ?eff"
      by (simp add: d' applied_def)
    have fix_eff: "(\<lambda>k. if ?n k \<noteq> None \<and> ?n k = None then None else (?eff ++ ?n) k) = ?eff"
      by (rule ext) (auto simp: map_add_def split: option.splits)
    have "SetLabelsDiff config (applied d') =
        (None, (applied d')\<lparr>diff_new := (diff_new (applied d'))
           (''terraform_labels'' := Some ?n,
            ''effective_labels'' := Some (\<lambda>k. if ?n k \<noteq> None \<and> ?n k = None then None else (?eff ++ ?n) k))\<rparr>)"
      by (rule SetLabelsDiff_success [OF g1 g2 g3 g4 g5])
    also have "\<dots> = (None, applied d')"
      unfolding fix_eff by (simp add: d' applied_def)
    finally show ?thesis .
  qed
qed

theorem SetLabelsDiff_idempotent_witness:
  "fst (SetLabelsDiff env_prod
          (plan_diff (Some [''team'' \<mapsto> ''x'']) [''old'' \<mapsto> ''y''] [''old'' \<mapsto> ''y''])) = None
   \<and> SetLabelsDiff env_prod
        (applied (snd (SetLabelsDiff env_prod
           (plan_diff (Some [''team'' \<mapsto> ''x'']) [''old'' \<mapsto> ''y''] [''old'' \<mapsto> ''y'']))))
     = (None, applied (snd (SetLabelsDiff env_prod
           (plan_diff (Some [''team'' \<mapsto> ''x'']) [''old'' \<mapsto> ''y''] [''old'' \<mapsto> ''y'']))))"
proof -
  let ?d = "plan_diff (Some [''team'' \<mapsto> ''x'']) [''old'' \<mapsto> ''y''] [''old'' \<mapsto> ''y'']"
  have ok: "fst (SetLabelsDiff env_prod ?d) = None"
    by (simp add: SetLabelsDiff_def diff_Get_def diff_SetNew_def diff_GetChange_def Let_def
        plan_diff_def env_prod_def)
  then have run: "SetLabelsDiff env_prod ?d = (None, snd (SetLabelsDiff env_prod ?d))"
    by (simp add: prod_eq_iff)
  from SetLabelsDiff_idempotent [OF run] ok show ?thesis by simp
qed

text \<open>
  Claim C8, as stated, fails on each kind of nil input it names. With nil user labels
  \<open>SetLabelsDiff\<close> returns at once and does not merge the default labels, while with an
  empty map it does. With a nil prior \<open>effective_labels\<close> or a nil prior \<open>terraform_labels\<close>
  its type assertion panics, while with an empty map it returns no error. With nil remote
  labels \<open>SetLabels\<close> stores the empty map, while with an empty remote map it stores every
  configured key with the value \<open>""\<close>.
\<close>

theorem nil_inputs_counterexample:
  "diff_new (snd (SetLabelsDiff env_prod (plan_diff None Map.empty Map.empty))) ''terraform_labels''
     \<noteq> diff_new (snd (SetLabelsDiff env_prod (plan_diff (Some Map.empty) Map.empty Map.empty)))
          ''terraform_labels''
   \<and> fst (SetLabelsDiff env_prod (raw_diff (Some Map.empty) (Some Map.empty) None))
     \<noteq> fst (SetLabelsDiff env_prod (raw_diff (Some Map.empty) (Some Map.empty) (Some Map.empty)))
   \<and> fst (SetLabelsDiff env_prod (raw_diff (Some Map.empty) None (Some Map.empty)))
     \<noteq> fst (SetLabelsDiff env_prod (raw_diff (Some Map.empty) (Some Map.empty) (Some Map.empty)))
   \<and> data_fields (snd (SetLabels None (read_data (Some [''team'' \<mapsto> ''x''])) ''labels'')) ''labels''
     \<noteq> data_fields (snd (SetLabels (Some Map.empty) (read_data (Some [''team'' \<mapsto> ''x''])) ''labels''))
          ''labels''"
proof (intro conjI)
  have a: "diff_new (snd (SetLabelsDiff env_prod (plan_diff None Map.empty Map.empty)))
      ''terraform_labels'' = Some Map.empty"
    by (simp add: SetLabelsDiff_def diff_Get_def plan_diff_def)
  have b: "diff_new (snd (SetLabelsDiff env_prod (plan_diff (Some Map.empty) Map.empty Map.empty)))
      ''terraform_labels'' = Some [''env'' \<mapsto> ''prod'']"
    by (simp add: SetLabelsDiff_def diff_Get_def diff_SetNew_def diff_GetChange_def Let_def
        plan_diff_def env_prod_def)
  have "[''env'' \<mapsto> ''prod''] \<noteq> (Map.empty :: labels)" by simp
  with a b show "diff_new (snd (SetLabelsDiff env_prod (plan_diff None Map.empty Map.empty))) ''terraform_labels''
     \<noteq> diff_new (snd (SetLabelsDiff env_prod (plan_diff (Some Map.empty) Map.empty Map.empty)))
          ''terraform_labels''"
    by (simp add: eq_commute [of "Map.empty"])
  have ok: "fst (SetLabelsDiff env_prod (raw_diff (Some Map.empty) (Some Map.empty) (Some Map.empty))) = None"
    by (simp add: SetLabelsDiff_def diff_Get_def diff_SetNew_def diff_GetChange_def Let_def raw_diff_def)
  have p1: "fst (SetLabelsDiff env_prod (raw_diff (Some Map.empty) (Some Map.empty) None)) = Some nil_assertion"
    by (simp add: SetLabelsDiff_def diff_Get_def diff_SetNew_def diff_GetChange_def Let_def raw_diff_def)
  have p2: "fst (SetLabelsDiff env_prod (raw_diff (Some Map.empty) None (Some Map.empty))) = Some nil_assertion"
    by (simp add: SetLabelsDiff_def diff_Get_def diff_SetNew_def diff_GetChange_def Let_def raw_diff_def)
  from ok p1 show "fst (SetLabelsDiff env_prod (raw_diff (Some Map.empty) (Some Map.empty) None))
     \<noteq> fst (SetLabelsDiff env_prod (raw_diff (Some Map.empty) (Some Map.empty) (Some Map.empty)))"
    by simp
  from ok p2 show "fst (SetLabelsDiff env_prod (raw_diff (Some Map.empty) None (Some Map.empty)))
     \<noteq> fst (SetLabelsDiff env_prod (raw_diff (Some Map.empty) (Some Map.empty) (Some Map.empty)))"
    by simp
  have n: "data_fields (snd (SetLabels None (read_data (Some [''team'' \<mapsto> ''x''])) ''labels'')) ''labels''
      = Some Map.empty"
    by (simp add: SetLabels_def data_GetOk_def data_Set_def read_data_def Let_def)
  have e: "data_fields (snd (SetLabels (Some Map.empty) (read_data (Some [''team'' \<mapsto> ''x''])) ''labels''))
      ''labels'' = Some [''team'' \<mapsto> []]"
    by (simp add: SetLabels_def data_GetOk_def data_Set_def read_data_def index_or_zero_def Let_def
        fun_eq_iff)
  have "[''team'' \<mapsto> []] \<noteq> (Map.empty :: labels)" by simp
  with n e show "data_fields (snd (SetLabels None (read_data (Some [''team'' \<mapsto> ''x''])) ''labels'')) ''labels''
     \<noteq> data_fields (snd (SetLabels (Some Map.empty) (read_data (Some [''team'' \<mapsto> ''x''])) ''labels''))
          ''labels''"
    by (simp add: eq_commute [of "Map.empty"])
qed

text \<open>
  Claim C8, amended. \<open>SetLabels\<close> signals no error of its own: it returns exactly the
  host's answer to \<open>d.Set\<close>; an absent configured map behaves as an empty one, and nil
  remote labels give the empty state map. \<open>SetLabelsDiff\<close>, when \<open>d.Get("labels")\<close> is nil,
  returns nil at once and leaves the diff untouched. When the user labels are present (an
  empty map included) and both prior maps are present, it returns an error exactly when
  the host refuses one of its two writes, and then the host's error, wrapped; once the first
  write is accepted \<open>terraform_labels\<close> holds the default labels overlaid with the user
  labels. When the user labels are present, the first write is accepted and the prior
  \<open>terraform_labels\<close> or \<open>effective_labels\<close> is nil, it panics on the type assertion.
\<close>

theorem label_helpers_nil_inputs:
  "fst (SetLabels remote d lineage) = data_set_error d lineage
   \<and> (data_fields d lineage = None \<or> data_fields d lineage = Some Map.empty
        \<longrightarrow> SetLabels remote d lineage = data_Set d lineage Map.empty)
   \<and> SetLabels None d lineage = data_Set d lineage Map.empty
   \<and> (diff_Get d2 ''labels'' = None \<longrightarrow> SetLabelsDiff config d2 = (None, d2))
   \<and> (diff_Get d3 ''labels'' = Some U \<and> diff_old d3 ''terraform_labels'' \<noteq> None
        \<and> diff_new d3 ''effective_labels'' \<noteq> None
        \<longrightarrow> (fst (SetLabelsDiff config d3) = None) =
               (setnew_error d3 ''terraform_labels'' = None \<and> setnew_error d3 ''effective_labels'' = None)
            \<and> (\<forall>e. fst (SetLabelsDiff config d3) = Some e \<longrightarrow>
                  (\<exists>h. e = Wrap ''error setting new terraform_labels diff'' h
                        \<and> setnew_error d3 ''terraform_labels'' = Some h)
                  \<or> (\<exists>h. e = Wrap ''error setting new effective_labels diff'' h
                        \<and> setnew_error d3 ''effective_labels'' = Some h))
            \<and> (setnew_error d3 ''terraform_labels'' = None \<longrightarrow>
                  diff_new (snd (SetLabelsDiff config d3)) ''terraform_labels''
                    = Some (DefaultLabels config ++ U)))
   \<and> (diff_Get d4 ''labels'' \<noteq> None \<and> setnew_error d4 ''terraform_labels'' = None
        \<and> (diff_old d4 ''terraform_labels'' = None \<or> diff_new d4 ''effective_labels'' = None)
        \<longrightarrow> fst (SetLabelsDiff config d4) = Some nil_assertion)"
proof (intro conjI impI)
  show "fst (SetLabels remote d lineage) = data_set_error d lineage"
    by (simp add: SetLabels_def data_Set_def Let_def split: option.splits)
  show "SetLabels None d lineage = data_Set d lineage Map.empty"
    by (simp add: SetLabels_def data_GetOk_def Let_def split: option.splits bool.splits)
  show "SetLabels remote d lineage = data_Set d lineage Map.empty"
    if "data_fields d lineage = None \<or> data_fields d lineage = Some Map.empty"
    using that by (auto simp: SetLabels_def data_GetOk_def Let_def)
  show "SetLabelsDiff config d2 = (None, d2)" if "diff_Get d2 ''labels'' = None"
    using that by (simp add: SetLabelsDiff_def)
  assume h: "diff_Get d3 ''labels'' = Some U \<and> diff_old d3 ''terraform_labels'' \<noteq> None
        \<and> diff_new d3 ''effective_labels'' \<noteq> None"
  show "(fst (SetLabelsDiff config d3) = None) =
      (setnew_error d3 ''terraform_labels'' = None \<and> setnew_error d3 ''effective_labels'' = None)"
    using h
    by (auto simp: SetLabelsDiff_def diff_Get_def diff_SetNew_def diff_GetChange_def Let_def
        split: option.splits)
  show "\<forall>e. fst (SetLabelsDiff config d3) = Some e \<longrightarrow>
                  (\<exists>h. e = Wrap ''error setting new terraform_labels diff'' h
                        \<and> setnew_error d3 ''terraform_labels'' = Some h)
                  \<or> (\<exists>h. e = Wrap ''error setting new effective_labels diff'' h
                        \<and> setnew_error d3 ''effective_labels'' = Some h)"
    using h
    by (auto simp: SetLabelsDiff_def diff_Get_def diff_SetNew_def diff_GetChange_def Let_def
        split: option.splits)
  show "diff_new (snd (SetLabelsDiff config d3)) ''terraform_labels'' = Some (DefaultLabels config ++ U)"
    if "setnew_error d3 ''terraform_labels'' = None"
    using h that
    by (auto simp: SetLabelsDiff_def diff_Get_def diff_SetNew_def diff_GetChange_def Let_def
        split: option.splits)
next
  assume "diff_Get d4 ''labels'' \<noteq> None \<and> setnew_error d4 ''terraform_labels'' = None
        \<and> (diff_old d4 ''terraform_labels'' = None \<or> diff_new d4 ''effective_labels'' = None)"
  then show "fst (SetLabelsDiff config d4) = Some nil_assertion"
    by (auto simp: SetLabelsDiff_def diff_Get_def diff_SetNew_def diff_GetChange_def Let_def
        split: option.splits)
qed

theorem label_helpers_nil_inputs_witness:
  "data_fields (read_data None) ''labels'' = None
   \<and> SetLabels (Some [''goog-managed'' \<mapsto> ''y'']) (read_data None) ''labels''
       = data_Set (read_data None) ''labels'' Map.empty
   \<and> diff_Get (plan_diff None Map.empty Map.empty) ''labels'' = None
   \<and> SetLabelsDiff env_prod (plan_diff None Map.empty Map.empty)
       = (None, plan_diff None Map.empty Map.empty)
   \<and> diff_Get (plan_diff (Some Map.empty) Map.empty Map.empty) ''labels'' = Some Map.empty
   \<and> fst (SetLabelsDiff env_prod (plan_diff (Some Map.empty) Map.empty Map.empty)) = None
   \<and> diff_new (snd (SetLabelsDiff env_prod (plan_diff (Some Map.empty) Map.empty Map.empty)))
        ''terraform_labels'' = Some (DefaultLabels env_prod ++ Map.empty)
   \<and> diff_new (raw_diff (Some Map.empty) (Some Map.empty) None) ''effective_labels'' = None
   \<and> fst (SetLabelsDiff env_prod (raw_diff (Some Map.empty) (Some Map.empty) None))
       = Some nil_assertion"
proof -
  let ?d3 = "plan_diff (Some Map.empty) Map.empty Map.empty"
  let ?d4 = "raw_diff (Some Map.empty) (Some Map.empty) None"
  have h3: "diff_Get ?d3 ''labels'' = Some Map.empty" "diff_old ?d3 ''terraform_labels'' \<noteq> None"
    "diff_new ?d3 ''effective_labels'' \<noteq> None" "setnew_error ?d3 ''terraform_labels'' = None"
    "setnew_error ?d3 ''effective_labels'' = None"
    by (simp_all add: plan_diff_def diff_Get_def)
  have h4: "diff_Get ?d4 ''labels'' \<noteq> None" "setnew_error ?d4 ''terraform_labels'' = None"
    "diff_new ?d4 ''effective_labels'' = None"
    by (simp_all add: raw_diff_def diff_Get_def)
  have h1: "data_fields (read_data None) ''labels'' = None"
    and h2: "diff_Get (plan_diff None Map.empty Map.empty) ''labels'' = None"
    by (simp_all add: read_data_def plan_diff_def diff_Get_def)
  from label_helpers_nil_inputs [of "Some [''goog-managed'' \<mapsto> ''y'']" "read_data None" "''labels''"
      "plan_diff None Map.empty Map.empty" env_prod ?d3 Map.empty ?d4] h1 h2 h3 h4
  show ?thesis by simp
qed

section \<open>Properties of Delete\<close>

subsection \<open>A refused deletion keeps the loop going\<close>

lemma delete_task_stuck: "stuck w \<Longrightarrow> stuck (delete_task bucket ob w)"
  by (cases "objects w")
    (auto simp: stuck_def delete_task_def Objects_Delete_def issue_def Let_def)

lemma fold_delete_task_stuck: "stuck w \<Longrightarrow> stuck (fold (delete_task bucket) xs w)"
  by (induction xs arbitrary: w) (simp_all add: delete_task_stuck)

lemma issue_stuck: "stuck (issue c w) = stuck w"
  by (simp add: stuck_def issue_def)

lemma delete_loop_stuck_aux:
  assumes run: "delete_loop rt d bucket w = Some r"
  shows "force_destroy (current d) \<longrightarrow> \<not> stuck w"
proof (rule delete_loop.raw_induct
    [OF _ run, where P = "\<lambda>rt d bucket w r. force_destroy (current d) \<longrightarrow> \<not> stuck w"])
  fix f :: "Runtime \<Rightarrow> ResourceData \<Rightarrow> string \<Rightarrow> World \<Rightarrow> (error option \<times> World) option"
  fix rt d bucket w r
  assume IH: "\<And>rt d bucket w r. f rt d bucket w = Some r \<Longrightarrow> force_destroy (current d) \<longrightarrow> \<not> stuck w"
  assume body: "(case Objects_List bucket w of
        (Inl err, w1) \<Rightarrow> Some (Some err, w1)
      | (Inr items, w1) \<Rightarrow>
          if length items \<noteq> 0 then
            if force_destroy (current d) then
              (let wp = workerpool_New (NumCPU rt - 1);
                   wp = fold (\<lambda>ob p. Submit p ob) items wp;
                   w2 = StopWait rt wp (delete_task bucket) w1
               in f rt d bucket w2)
            else Some (Some not_empty_error, w1)
          else Some (None, w1)) = Some r"
  show "force_destroy (current d) \<longrightarrow> \<not> stuck w"
  proof (intro impI notI)
    assume force: "force_destroy (current d)" and st: "stuck w"
    then have items: "Objects_List bucket w = (Inr (take (page_size w) (objects w)), issue (ObjectsList bucket) w)"
      and ne: "take (page_size w) (objects w) \<noteq> []"
      by (auto simp: Objects_List_def stuck_def)
    let ?wp = "fold (\<lambda>ob p. Submit p ob) (take (page_size w) (objects w)) (workerpool_New (NumCPU rt - 1))"
    let ?w2 = "StopWait rt ?wp (delete_task bucket) (issue (ObjectsList bucket) w)"
    from body items ne force have "f rt d bucket ?w2 = Some r"
      by (simp add: Let_def)
    from IH [OF this] force have "\<not> stuck ?w2" by simp
    moreover have "stuck ?w2"
      unfolding StopWait_def using st by (simp add: fold_delete_task_stuck issue_stuck)
    ultimately show False by simp
  qed
qed

lemma delete_loop_stuck:
  assumes "delete_loop rt d bucket w = Some r" and "force_destroy (current d)"
  shows "\<not> stuck w"
  using delete_loop_stuck_aux [OF assms(1)] assms(2) by simp

lemma Delete_stuck:
  assumes "stuck w" and "force_destroy (current d)"
  shows "resourceStorageBucketDelete rt d w = None"
proof -
  have "delete_loop rt d (name (current d)) w = None"
    using delete_loop_stuck [OF _ assms(2), of rt "name (current d)" w] assms(1)
    by (cases "delete_loop rt d (name (current d)) w") auto
  then show ?thesis by (simp add: resourceStorageBucketDelete_def)
qed



subsection \<open>When every deletion succeeds\<close>



lemma BucketsDelete_notin_map: "BucketsDelete b \<notin> set (map (delete_call b') xs)"
  by (auto simp: delete_call_def)










text \<open>
  Claim C3: when the listing of the bucket comes back non-empty and \<open>force_destroy\<close> is not
  set, Delete returns the "not empty" error at once. The only call it has issued is the
  listing: no object-delete call, no bucket-delete call, nothing retried, and the bucket
  holds what it held.
\<close>

theorem Delete_not_forced:
  assumes "fst (Objects_List (name (current d)) w) = Inr items"
    and "items \<noteq> []"
    and "\<not> force_destroy (current d)"
  shows "\<exists>w'. resourceStorageBucketDelete rt d w = Some (Some not_empty_error, w')
     \<and> calls w' = calls w @ [ObjectsList (name (current d))]
     \<and> objects w' = objects w"
proof -
  let ?w' = "issue (ObjectsList (name (current d))) w"
  have l: "Objects_List (name (current d)) w = (Inr items, ?w')"
    using assms(1) by (auto simp: Objects_List_def split: option.splits)
  have "delete_loop rt d (name (current d)) w = Some (Some not_empty_error, ?w')"
    by (subst delete_loop.simps) (simp add: l assms)
  then have "resourceStorageBucketDelete rt d w = Some (Some not_empty_error, ?w')"
    by (simp add: resourceStorageBucketDelete_def)
  moreover have "calls ?w' = calls w @ [ObjectsList (name (current d))]" "objects ?w' = objects w"
    by (simp_all add: issue_def)
  ultimately show ?thesis by blast
qed

theorem Delete_not_forced_witness:
  "fst (Objects_List (name (current (bucket_data no_fields no_fields))) (quiet_world [object_a]))
     = Inr [object_a]
   \<and> [object_a] \<noteq> []
   \<and> \<not> force_destroy (current (bucket_data no_fields no_fields))
   \<and> (\<exists>w'. resourceStorageBucketDelete four_cpus (bucket_data no_fields no_fields)
              (quiet_world [object_a]) = Some (Some not_empty_error, w')
        \<and> calls w' = calls (quiet_world [object_a])
                        @ [ObjectsList (name (current (bucket_data no_fields no_fields)))]
        \<and> objects w' = objects (quiet_world [object_a]))"
proof -
  have h1: "fst (Objects_List (name (current (bucket_data no_fields no_fields))) (quiet_world [object_a]))
      = Inr [object_a]"
    by (simp add: Objects_List_def quiet_world_def)
  have h2: "[object_a] \<noteq> []" by simp
  have h3: "\<not> force_destroy (current (bucket_data no_fields no_fields))"
    by (simp add: bucket_data_def no_fields_def)
  from Delete_not_forced [OF h1 h2 h3, of four_cpus] h1 h2 h3
  show ?thesis by blast
qed




text \<open>
  Claim C7 does not hold of the code: a failed object deletion is only logged, but what
  follows is not the bucket-delete call. The loop lists the bucket again, and as long as
  a listed object version cannot be deleted Delete neither issues the bucket-delete call
  nor returns. For a bucket holding one object version whose deletion the service always
  refuses, the forced Delete never returns.
\<close>

theorem Delete_locked_object_never_returns:
  "resourceStorageBucketDelete four_cpus forced (refusing_always [object_a]) = None"
  by (rule Delete_stuck)
    (simp_all add: stuck_def refusing_always_def quiet_world_def forced_def bucket_data_def)

section \<open>Properties of Create and Update\<close>

lemma create_website_many:
  "1 < length (website (current d)) \<Longrightarrow> create_website d sb = Inl website_error"
  by (auto simp: create_website_def Let_def)

lemma update_website_many:
  "1 < length (website (current d)) \<Longrightarrow> HasChange d website \<Longrightarrow>
   update_website d sb = Inl website_error"
  by (auto simp: update_website_def Let_def)

lemma lifecycle_isl:
  "isl (resourceGCSBucketLifecycleCreateOrUpdate d sb)
     = isl (lifecycle_rules (lifecycle_rule (current d)) [])"
  by (cases "lifecycle_rule (current d)")
    (auto simp: resourceGCSBucketLifecycleCreateOrUpdate_def split: sum.splits)

lemma expandBucketVersioning_Inl: "expandBucketVersioning vs = Inl e \<Longrightarrow> vs = []"
  by (cases vs) simp_all

lemma create_bucket_many:
  assumes "1 < length (website (current d))"
  shows "\<exists>e. create_bucket d = Inl e
     \<and> (\<not> isl (lifecycle_rules (lifecycle_rule (current d)) []) \<longrightarrow> e = website_error)"
proof -
  let ?sb0 = "empty_Bucket\<lparr>Bucket_Name := name (current d), Labels := expandLabels d,
                            Location := location (current d)\<rparr>"
  let ?sb1 = "if storage_class (current d) \<noteq> []
                then ?sb0\<lparr>StorageClass := storage_class (current d)\<rparr> else ?sb0"
  show ?thesis
  proof (cases "resourceGCSBucketLifecycleCreateOrUpdate d ?sb1")
    case (Inl e)
    then have "isl (lifecycle_rules (lifecycle_rule (current d)) [])"
      using lifecycle_isl [of d ?sb1] by simp
    moreover have "create_bucket d = Inl e"
      using Inl by (simp add: create_bucket_def Let_def)
    ultimately show ?thesis by simp
  next
    case (Inr sb)
    have "create_bucket d = Inl website_error"
      using Inr
      by (auto simp: create_bucket_def Let_def create_website_many [OF assms]
          split: sum.splits dest: expandBucketVersioning_Inl)
    then show ?thesis by simp
  qed
qed

lemma update_patch_many:
  assumes "1 < length (website (current d))" and "HasChange d website"
  shows "\<exists>e. update_patch d = Inl e
     \<and> (\<not> HasChange d lifecycle_rule \<or> \<not> isl (lifecycle_rules (lifecycle_rule (current d)) [])
          \<longrightarrow> e = website_error)"
proof (cases "update_lifecycle d empty_Bucket")
  case (Inl e)
  then have "HasChange d lifecycle_rule \<and> isl (lifecycle_rules (lifecycle_rule (current d)) [])"
    using lifecycle_isl [of d empty_Bucket] by (auto simp: update_lifecycle_def split: if_splits)
  moreover have "update_patch d = Inl e"
    using Inl by (simp add: update_patch_def)
  ultimately show ?thesis by simp
next
  case (Inr sb)
  have "update_patch d = Inl website_error"
    using Inr
    by (auto simp: update_patch_def update_versioning_def update_website_many [OF assms]
        split: sum.splits dest: expandBucketVersioning_Inl)
  then show ?thesis by simp
qed

lemma null_label_Labels: "Labels (null_label kv sb) = Labels sb"
  by (simp add: null_label_def)

lemma fold_null_label_Labels: "Labels (fold null_label xs sb) = Labels sb"
  by (induction xs arbitrary: sb) (simp_all add: null_label_Labels)

lemma fold_null_label_mono: "set (NullFields sb) \<subseteq> set (NullFields (fold null_label xs sb))"
proof (induction xs arbitrary: sb)
  case Nil
  show ?case by simp
next
  case (Cons x xs)
  have "set (NullFields sb) \<subseteq> set (NullFields (null_label x sb))"
    by (auto simp: null_label_def)
  with Cons [of "null_label x sb"] show ?case by auto
qed

lemma fold_null_label_marks:
  "k \<in> fst ` set xs \<Longrightarrow> map_of (Labels sb) k = None \<Longrightarrow>
   (''Labels.'' @ k) \<in> set (NullFields (fold null_label xs sb))"
proof (induction xs arbitrary: sb)
  case Nil
  then show ?case by simp
next
  case (Cons x xs)
  show ?case
  proof (cases "fst x = k")
    case True
    with Cons.prems(2) have "(''Labels.'' @ k) \<in> set (NullFields (null_label x sb))"
      by (simp add: null_label_def)
    with fold_null_label_mono [of "null_label x sb" xs] show ?thesis by auto
  next
    case False
    with Cons.prems(1) have "k \<in> fst ` set xs" by auto
    moreover have "map_of (Labels (null_label x sb)) k = None"
      using Cons.prems(2) by (simp add: null_label_Labels)
    ultimately show ?thesis using Cons.IH [of "null_label x sb"] by simp
  qed
qed

lemma update_labels_removed_key:
  assumes "k \<in> fst ` set (labels (prior d))" and "k \<notin> fst ` set (labels (current d))"
  shows "(''Labels.'' @ k) \<in> set (NullFields (update_labels d sb))"
proof -
  from assms have ch: "HasChange_labels d"
    by (auto simp: HasChange_labels_def)
  have none: "map_of (labels (current d)) k = None"
    using assms(2) by (simp add: map_of_eq_None_iff)
  let ?sb1 = "sb\<lparr>Labels := expandLabels d\<rparr>"
  let ?sb2 = "if length (Labels ?sb1) = 0
              then ?sb1\<lparr>NullFields := NullFields ?sb1 @ [''Labels'']\<rparr> else ?sb1"
  have "map_of (Labels ?sb2) k = None"
    using none by (simp add: expandLabels_def)
  from fold_null_label_marks [OF assms(1) this]
  show ?thesis using ch by (simp add: update_labels_def Let_def)
qed

lemma update_logging_cleared:
  "HasChange d logging \<Longrightarrow> logging (current d) = [] \<Longrightarrow>
   update_logging d sb = Inr (sb\<lparr>NullFields := NullFields sb @ [''Logging'']\<rparr>)"
  by (simp add: update_logging_def)

lemma update_encryption_cleared:
  "HasChange d encryption \<Longrightarrow> encryption (current d) = [] \<Longrightarrow>
   update_encryption d sb = Inr (sb\<lparr>NullFields := NullFields sb @ [''Encryption'']\<rparr>)"
  by (simp add: update_encryption_def)

text \<open>
  Claim C9, as stated, fails for Update: the check of the website blocks sits under
  \<open>d.HasChange("website")\<close>. With two website blocks in both the prior state and the
  configuration, Update returns no error and issues the patch call.
\<close>

theorem Update_unchanged_website_counterexample:
  "1 < length (website (current (bucket_data two_websites two_websites)))
   \<and> fst (resourceStorageBucketUpdate (bucket_data two_websites two_websites) (quiet_world [])) = None
   \<and> calls (snd (snd (resourceStorageBucketUpdate (bucket_data two_websites two_websites) (quiet_world []))))
       = [BucketsPatch ''b'' empty_Bucket]"
  by (simp add: resourceStorageBucketUpdate_def update_patch_def update_lifecycle_def
      update_billing_def update_versioning_def update_website_def update_cors_def
      update_logging_def update_encryption_def update_labels_def HasChange_def HasChange_labels_def
      bucket_data_def two_websites_def no_fields_def Buckets_Patch_def quiet_world_def issue_def)

text \<open>
  Claim C9, amended: for every configuration with more than one website block, Create
  returns an error before any remote call, and so does Update whenever the website field
  has changed: the resource data and the world, its trace of calls included, are left as
  they were, so no insert or patch call is made and nothing is retried. The error is the
  "At most one website block is allowed" error whenever no earlier step fails (the project
  resolves, and the lifecycle rules are valid or, for Update, unchanged).
\<close>

theorem website_blocks_rejected:
  assumes "1 < length (website (current d))"
  shows "(\<exists>e. resourceStorageBucketCreate meta rt d w = (Some e, d, w)
            \<and> (\<not> isl (getProject meta d) \<and> \<not> isl (lifecycle_rules (lifecycle_rule (current d)) [])
                 \<longrightarrow> e = website_error))
       \<and> (HasChange d website \<longrightarrow>
            (\<exists>e. resourceStorageBucketUpdate d w = (Some e, d, w)
               \<and> (\<not> HasChange d lifecycle_rule \<or> \<not> isl (lifecycle_rules (lifecycle_rule (current d)) [])
                    \<longrightarrow> e = website_error)))"
proof (intro conjI impI)
  from create_bucket_many [OF assms] obtain e where
    e: "create_bucket d = Inl e"
      "\<not> isl (lifecycle_rules (lifecycle_rule (current d)) []) \<longrightarrow> e = website_error"
    by blast
  show "\<exists>e. resourceStorageBucketCreate meta rt d w = (Some e, d, w)
            \<and> (\<not> isl (getProject meta d) \<and> \<not> isl (lifecycle_rules (lifecycle_rule (current d)) [])
                 \<longrightarrow> e = website_error)"
  proof (cases "getProject meta d")
    case (Inl err)
    then show ?thesis by (simp add: resourceStorageBucketCreate_def)
  next
    case (Inr proj)
    then show ?thesis using e by (simp add: resourceStorageBucketCreate_def)
  qed
next
  assume "HasChange d website"
  from update_patch_many [OF assms this] obtain e where
    "update_patch d = Inl e"
    "\<not> HasChange d lifecycle_rule \<or> \<not> isl (lifecycle_rules (lifecycle_rule (current d)) [])
          \<longrightarrow> e = website_error"
    by blast
  then show "\<exists>e. resourceStorageBucketUpdate d w = (Some e, d, w)
               \<and> (\<not> HasChange d lifecycle_rule \<or> \<not> isl (lifecycle_rules (lifecycle_rule (current d)) [])
                    \<longrightarrow> e = website_error)"
    by (simp add: resourceStorageBucketUpdate_def)
qed

theorem website_blocks_rejected_witness:
  "1 < length (website (current (bucket_data no_fields two_websites)))
   \<and> \<not> isl (getProject provider (bucket_data no_fields two_websites))
   \<and> \<not> isl (lifecycle_rules (lifecycle_rule (current (bucket_data no_fields two_websites))) [])
   \<and> HasChange (bucket_data no_fields two_websites) website
   \<and> resourceStorageBucketCreate provider four_cpus (bucket_data no_fields two_websites) (quiet_world [])
       = (Some website_error, bucket_data no_fields two_websites, quiet_world [])
   \<and> resourceStorageBucketUpdate (bucket_data no_fields two_websites) (quiet_world [])
       = (Some website_error, bucket_data no_fields two_websites, quiet_world [])"
proof -
  let ?d = "bucket_data no_fields two_websites"
  have h: "1 < length (website (current ?d))"
    by (simp add: bucket_data_def two_websites_def)
  have p: "\<not> isl (getProject provider ?d)" by (simp add: provider_def)
  have l: "\<not> isl (lifecycle_rules (lifecycle_rule (current ?d)) [])"
    by (simp add: bucket_data_def two_websites_def no_fields_def)
  have c: "HasChange ?d website"
    by (simp add: HasChange_def bucket_data_def two_websites_def no_fields_def)
  from website_blocks_rejected [OF h, of provider four_cpus "quiet_world []"] h p l c
  show ?thesis by auto
qed

text \<open>
  Claim C10 does not hold of the code: when the prior state has no website block and the
  new value is a one-element list whose element is nil (an empty \<open>website\<close> block), the
  website field has changed and Update writes the empty strings through the nil pointer
  \<open>sb.Website\<close> and panics; no patch call is made.
\<close>

theorem Update_emptied_website_panics:
  "resourceStorageBucketUpdate
     (bucket_data no_fields (no_fields\<lparr>website := [None]\<rparr>))
     (quiet_world [])
   = (Some nil_dereference,
      bucket_data no_fields (no_fields\<lparr>website := [None]\<rparr>),
      quiet_world [])"
  by (simp add: resourceStorageBucketUpdate_def update_patch_def update_lifecycle_def
      update_billing_def update_versioning_def update_website_def
      HasChange_def bucket_data_def no_fields_def empty_Bucket_def)

text \<open>
  Claim C4 does not hold of the code for \<open>cors\<close> and \<open>website\<close>: when both are cleared,
  the patch Update sends carries neither a value nor a null marker for them (it is the
  empty patch), so the remote values stay. For \<open>logging\<close>, \<open>encryption\<close> and \<open>labels\<close> the
  markers are there, as \<open>update_logging_cleared\<close>, \<open>update_encryption_cleared\<close> and
  \<open>update_labels_removed_key\<close> show.
\<close>

theorem Update_cleared_fields_omitted:
  "update_patch (bucket_data (no_fields\<lparr>website := [Some index_page], cors := [Some any_origin]\<rparr>) no_fields)
     = Inr empty_Bucket
   \<and> Website empty_Bucket = None \<and> Cors empty_Bucket = None \<and> NullFields empty_Bucket = []
   \<and> calls (snd (snd (resourceStorageBucketUpdate
        (bucket_data (no_fields\<lparr>website := [Some index_page], cors := [Some any_origin]\<rparr>) no_fields)
        (quiet_world []))))
       = [BucketsPatch ''b'' empty_Bucket]"
proof -
  let ?d = "bucket_data (no_fields\<lparr>website := [Some index_page], cors := [Some any_origin]\<rparr>) no_fields"
  have p: "update_patch ?d = Inr empty_Bucket"
    by (simp add: update_patch_def update_lifecycle_def
      update_billing_def update_versioning_def update_website_def update_cors_def
      update_logging_def update_encryption_def update_labels_def HasChange_def HasChange_labels_def
      bucket_data_def no_fields_def)
  have "calls (snd (snd (resourceStorageBucketUpdate ?d (quiet_world [])))) = [BucketsPatch ''b'' empty_Bucket]"
    unfolding resourceStorageBucketUpdate_def p
    by (simp add: Buckets_Patch_def quiet_world_def issue_def bucket_data_def no_fields_def)
  with p show ?thesis by (simp add: empty_Bucket_def)
qed

end
